theory Spec2Isabelle
  imports Complex_Main "HOL-Library.Multiset"
begin

section \<open>JavaScript values shared by the React components\<close>

text \<open>
  The three components under \<^verbatim>\<open>src/\<close> (\<^verbatim>\<open>DocumentUpload.jsx\<close>, the
  \<^verbatim>\<open>DocumentViewer\<close> part of \<^verbatim>\<open>Layout.jsx\<close> and the \<^verbatim>\<open>ProcessingDashboard\<close> of
  \<^verbatim>\<open>unnamed/part_001\<close>) keep their state in \<^verbatim>\<open>useState\<close> cells and talk to the
  server with \<^verbatim>\<open>fetch\<close>.  A state cell is a field of a record, an event handler is
  a function from the state (and from what the network answered) to the new state
  and the effects it performed, and the JSX a component returns is a value of a
  view datatype.  A JavaScript exception is the \<open>Inl\<close> side of a sum.

  \<open>jsval\<close> is what \<^verbatim>\<open>response.json()\<close> can resolve to, plus \<^verbatim>\<open>undefined\<close> (the
  value of a missing property).  Numbers are kept as rationals: the components
  only ever test them for truthiness.  An object is the list of its own
  properties in enumeration order.
\<close>

datatype jsval =
    JUndefined
  | JNull
  | JBool bool
  | JNum rat
  | JStr string
  | JArr "jsval list"
  | JObj "(string \<times> jsval) list"

datatype js_error = TypeError

text \<open>JavaScript truthiness, as \<^verbatim>\<open>!x\<close>, \<^verbatim>\<open>x && y\<close> and \<^verbatim>\<open>x ? y : z\<close> test it.\<close>

fun truthy :: "jsval \<Rightarrow> bool" where
  "truthy JUndefined = False"
| "truthy JNull = False"
| "truthy (JBool b) = b"
| "truthy (JNum n) = (n \<noteq> 0)"
| "truthy (JStr s) = (s \<noteq> [])"
| "truthy (JArr xs) = True"
| "truthy (JObj kvs) = True"

text \<open>
  \<^verbatim>\<open>v.k\<close> for the data properties the components read (\<^verbatim>\<open>id\<close>, \<^verbatim>\<open>filename\<close>,
  \<^verbatim>\<open>status\<close>, \<^verbatim>\<open>uploadDate\<close>, \<^verbatim>\<open>extractedData\<close>, \<^verbatim>\<open>imageUrl\<close>; no prototype defines
  one of them): reading a property of \<^verbatim>\<open>null\<close> or \<^verbatim>\<open>undefined\<close> throws a TypeError,
  a missing property is \<^verbatim>\<open>undefined\<close>.
\<close>

fun getProp :: "jsval \<Rightarrow> string \<Rightarrow> js_error + jsval" where
  "getProp JUndefined k = Inl TypeError"
| "getProp JNull k = Inl TypeError"
| "getProp (JObj kvs) k = Inr (case map_of kvs k of Some v \<Rightarrow> v | None \<Rightarrow> JUndefined)"
| "getProp v k = Inr JUndefined"

text \<open>
  \<^verbatim>\<open>Object.entries(v)\<close>: the own enumerable properties.  An array or a string
  enumerates its indices (kept as numbers here, JavaScript hands them out as
  strings); a number or a boolean has none.
\<close>

datatype propkey = Key string | Index nat

fun entries :: "jsval \<Rightarrow> js_error + (propkey \<times> jsval) list" where
  "entries JUndefined = Inl TypeError"
| "entries JNull = Inl TypeError"
| "entries (JObj kvs) = Inr (map (\<lambda>(k, v). (Key k, v)) kvs)"
| "entries (JArr xs) = Inr (zip (map Index [0..<length xs]) xs)"
| "entries (JStr s) = Inr (zip (map Index [0..<length s]) (map (\<lambda>c. JStr [c]) s))"
| "entries v = Inr []"

text \<open>Sequencing of steps that may throw: the first exception ends the evaluation.\<close>

fun bindE :: "'e + 'a \<Rightarrow> ('a \<Rightarrow> 'e + 'b) \<Rightarrow> 'e + 'b" where
  "bindE (Inl e) f = Inl e"
| "bindE (Inr x) f = f x"

fun mapE :: "('a \<Rightarrow> 'e + 'b) \<Rightarrow> 'a list \<Rightarrow> 'e + 'b list" where
  "mapE f [] = Inr []"
| "mapE f (x # xs) = bindE (f x) (\<lambda>y. bindE (mapE f xs) (\<lambda>ys. Inr (y # ys)))"

text \<open>
  What the network answered to one \<^verbatim>\<open>fetch\<close> followed by \<^verbatim>\<open>response.json()\<close>:
  \<^verbatim>\<open>fetch\<close> rejected (no connection), the body was not JSON, or the body parsed to a
  value.  \<^verbatim>\<open>fetch\<close> does not reject on an HTTP error status, so the parsed value may
  be an error body.
\<close>

datatype net_outcome =
    FetchRejected string
  | JsonRejected string
  | Resolved jsval

text \<open>A file picked in the browser, and a state cell that may hold \<^verbatim>\<open>null\<close> or \<^verbatim>\<open>undefined\<close>.\<close>

datatype jsfile = JsFile (fileName: string) (fileBytes: "nat list")

datatype 'a nullable = Null | Undefined | Obj 'a

fun truthyRef :: "'a nullable \<Rightarrow> bool" where
  "truthyRef Null = False"
| "truthyRef Undefined = False"
| "truthyRef (Obj x) = True"

text \<open>The effects a handler performs, in order.\<close>

datatype effect =
    FetchCall (url: string) (httpMethod: string) (formData: "(string \<times> jsfile nullable) list")
  | ConsoleLog string jsval
  | ConsoleError string string


section \<open>DocumentUpload\<close>

text \<open>
  \<^verbatim>\<open>const [selectedFile, setSelectedFile] = useState(null);\<close>
\<close>

record upload_state =
  selectedFile :: "jsfile nullable"

definition initialUpload :: upload_state where
  "initialUpload = \<lparr>selectedFile = Null\<rparr>"

text \<open>
  \<^verbatim>\<open>handleFileSelect = (event) => { setSelectedFile(event.target.files[0]); }\<close>:
  the first file of the input's list, \<^verbatim>\<open>undefined\<close> when the list is empty.
\<close>

definition handleFileSelect :: "jsfile list \<Rightarrow> upload_state \<Rightarrow> upload_state" where
  "handleFileSelect files s =
     s\<lparr>selectedFile := (case files of [] \<Rightarrow> Undefined | f # _ \<Rightarrow> Obj f)\<rparr>"

text \<open>
  \<^verbatim>\<open>handleUpload\<close>: \<^verbatim>\<open>if (!selectedFile) return;\<close> comes first; otherwise the cell's
  value is appended to a \<^verbatim>\<open>FormData\<close> under \<^verbatim>\<open>'file'\<close> and posted, and the
  \<^verbatim>\<open>try\<close>/\<^verbatim>\<open>catch\<close> logs the parsed answer or the error.  The handler sets no state.
\<close>

definition handleUpload :: "upload_state \<Rightarrow> net_outcome \<Rightarrow> effect list" where
  "handleUpload s out =
     (if \<not> truthyRef (selectedFile s) then []
      else
        FetchCall ''http://localhost:8000/api/upload'' ''POST'' [(''file'', selectedFile s)] #
        (case out of
           Resolved data \<Rightarrow> [ConsoleLog ''Upload successful:'' data]
         | FetchRejected err \<Rightarrow> [ConsoleError ''Upload failed:'' err]
         | JsonRejected err \<Rightarrow> [ConsoleError ''Upload failed:'' err]))"

text \<open>
  What the component returns: the \<^verbatim>\<open>Selected: ...\<close> line is rendered under
  \<^verbatim>\<open>selectedFile && ...\<close>, the upload button has \<^verbatim>\<open>disabled={!selectedFile}\<close> and
  \<^verbatim>\<open>onClick={handleUpload}\<close>.
\<close>

record upload_view =
  selectedLine :: "string option"
  uploadDisabled :: bool

definition DocumentUpload :: "upload_state \<Rightarrow> upload_view" where
  "DocumentUpload s =
     \<lparr>selectedLine = (case selectedFile s of Obj f \<Rightarrow> Some (''Selected: '' @ fileName f) | _ \<Rightarrow> None),
      uploadDisabled = (\<not> truthyRef (selectedFile s))\<rparr>"

text \<open>
  A click on the button: a disabled button delivers no \<^verbatim>\<open>onClick\<close>, an enabled one
  runs \<^verbatim>\<open>handleUpload\<close>.
\<close>

definition clickUpload :: "upload_state \<Rightarrow> net_outcome \<Rightarrow> effect list" where
  "clickUpload s out = (if uploadDisabled (DocumentUpload s) then [] else handleUpload s out)"


section \<open>DocumentViewer\<close>

text \<open>
  \<^verbatim>\<open>const [document, setDocument] = useState(null);\<close>
  \<^verbatim>\<open>const [loading, setLoading] = useState(true);\<close>
\<close>

record viewer_state =
  document :: jsval
  loading :: bool

definition initialViewer :: viewer_state where
  "initialViewer = \<lparr>document = JNull, loading = True\<rparr>"

text \<open>
  \<^verbatim>\<open>fetchDocument\<close>: inside \<^verbatim>\<open>try\<close>, the fetch of
  \<^verbatim>\<open>http://localhost:8000/api/documents/${id}\<close>, \<^verbatim>\<open>setDocument(data)\<close> and
  \<^verbatim>\<open>setLoading(false)\<close>; the \<^verbatim>\<open>catch\<close> logs and calls \<^verbatim>\<open>setLoading(false)\<close>.
\<close>

fun fetchDocument :: "string \<Rightarrow> net_outcome \<Rightarrow> viewer_state \<Rightarrow> viewer_state \<times> effect list" where
  "fetchDocument ident (Resolved data) s =
     (s\<lparr>document := data, loading := False\<rparr>,
      [FetchCall (''http://localhost:8000/api/documents/'' @ ident) ''GET'' []])"
| "fetchDocument ident (FetchRejected err) s =
     (s\<lparr>loading := False\<rparr>,
      [FetchCall (''http://localhost:8000/api/documents/'' @ ident) ''GET'' [],
       ConsoleError ''Failed to fetch document:'' err])"
| "fetchDocument ident (JsonRejected err) s =
     (s\<lparr>loading := False\<rparr>,
      [FetchCall (''http://localhost:8000/api/documents/'' @ ident) ''GET'' [],
       ConsoleError ''Failed to fetch document:'' err])"

text \<open>
  The JSX of the last \<^verbatim>\<open>return\<close>: the cells read \<^verbatim>\<open>document.filename\<close>,
  \<^verbatim>\<open>document.uploadDate\<close> and \<^verbatim>\<open>document.status\<close>; the extracted-data table is
  there when \<^verbatim>\<open>document.extractedData\<close> is truthy, with one row per entry; the
  preview when \<^verbatim>\<open>document.imageUrl\<close> is.  The view keeps the values handed to
  React (date formatting is not part of the model).
\<close>

record details =
  fileNameCell :: jsval
  uploadDateCell :: jsval
  statusCell :: jsval
  extractedRows :: "(propkey \<times> jsval) list option"
  previewSrc :: "jsval option"

datatype viewer_view = Spinner | NotFound | Details details

definition renderDetails :: "jsval \<Rightarrow> js_error + viewer_view" where
  "renderDetails d =
     bindE (getProp d ''filename'') (\<lambda>fn.
     bindE (getProp d ''uploadDate'') (\<lambda>ud.
     bindE (getProp d ''status'') (\<lambda>st.
     bindE (getProp d ''extractedData'') (\<lambda>ed.
     bindE (if truthy ed then bindE (entries ed) (\<lambda>rows. Inr (Some rows)) else Inr None) (\<lambda>rows.
     bindE (getProp d ''imageUrl'') (\<lambda>img.
     Inr (Details \<lparr>fileNameCell = fn, uploadDateCell = ud, statusCell = st,
                    extractedRows = rows,
                    previewSrc = (if truthy img then Some img else None)\<rparr>)))))))"

text \<open>
  The component body: \<^verbatim>\<open>if (loading) return <CircularProgress/>\<close>, then
  \<^verbatim>\<open>if (!document) return "Document not found"\<close>, then the details.
\<close>

definition DocumentViewer :: "viewer_state \<Rightarrow> js_error + viewer_view" where
  "DocumentViewer s =
     (if loading s then Inr Spinner
      else if \<not> truthy (document s) then Inr NotFound
      else renderDetails (document s))"


section \<open>ProcessingDashboard\<close>

text \<open>
  \<^verbatim>\<open>const [documents, setDocuments] = useState([]);\<close>
  \<^verbatim>\<open>const [loading, setLoading] = useState(true);\<close>
  (the second cell is \<open>loadingDocs\<close> here, \<open>loading\<close> being the viewer's).
\<close>

record dashboard_state =
  documents :: jsval
  loadingDocs :: bool

definition initialDashboard :: dashboard_state where
  "initialDashboard = \<lparr>documents = JArr [], loadingDocs = True\<rparr>"

text \<open>
  \<^verbatim>\<open>fetchDocuments\<close>: \<^verbatim>\<open>setDocuments(data)\<close> stores whatever the body parsed to;
  the \<^verbatim>\<open>catch\<close> leaves \<^verbatim>\<open>documents\<close> alone.  Both paths call \<^verbatim>\<open>setLoading(false)\<close>.
\<close>

fun fetchDocuments :: "net_outcome \<Rightarrow> dashboard_state \<Rightarrow> dashboard_state \<times> effect list" where
  "fetchDocuments (Resolved data) s =
     (s\<lparr>documents := data, loadingDocs := False\<rparr>,
      [FetchCall ''http://localhost:8000/api/documents'' ''GET'' []])"
| "fetchDocuments (FetchRejected err) s =
     (s\<lparr>loadingDocs := False\<rparr>,
      [FetchCall ''http://localhost:8000/api/documents'' ''GET'' [],
       ConsoleError ''Failed to fetch documents:'' err])"
| "fetchDocuments (JsonRejected err) s =
     (s\<lparr>loadingDocs := False\<rparr>,
      [FetchCall ''http://localhost:8000/api/documents'' ''GET'' [],
       ConsoleError ''Failed to fetch documents:'' err])"

text \<open>
  One card per element of \<^verbatim>\<open>documents.map((doc) => ...)\<close>: \<^verbatim>\<open>key={doc.id}\<close>, then
  \<^verbatim>\<open>doc.filename\<close>, \<^verbatim>\<open>doc.status\<close> and \<^verbatim>\<open>doc.uploadDate\<close>.
\<close>

record card =
  cardKey :: jsval
  cardTitle :: jsval
  cardStatus :: jsval
  cardUploaded :: jsval

datatype dashboard_view = LinearProgress | Grid "card list"

definition cardOf :: "jsval \<Rightarrow> js_error + card" where
  "cardOf doc =
     bindE (getProp doc ''id'') (\<lambda>i.
     bindE (getProp doc ''filename'') (\<lambda>fn.
     bindE (getProp doc ''status'') (\<lambda>st.
     bindE (getProp doc ''uploadDate'') (\<lambda>ud.
     Inr \<lparr>cardKey = i, cardTitle = fn, cardStatus = st, cardUploaded = ud\<rparr>))))"

text \<open>
  \<^verbatim>\<open>documents.map\<close> is a function only on an array: on \<^verbatim>\<open>null\<close> the property read
  throws, on any other value parsed from JSON \<^verbatim>\<open>.map\<close> is not callable.
\<close>

fun isArray :: "jsval \<Rightarrow> bool" where
  "isArray (JArr xs) = True"
| "isArray v = False"

fun renderGrid :: "jsval \<Rightarrow> js_error + dashboard_view" where
  "renderGrid (JArr docs) = bindE (mapE cardOf docs) (\<lambda>cs. Inr (Grid cs))"
| "renderGrid v = Inl TypeError"

definition ProcessingDashboard :: "dashboard_state \<Rightarrow> js_error + dashboard_view" where
  "ProcessingDashboard s = (if loadingDocs s then Inr LinearProgress else renderGrid (documents s))"


section \<open>The processing pipeline: OCR fallback chain and field aggregation\<close>

text \<open>
  The document pipeline (\<^verbatim>\<open>process\<close> and its stages) is Python code of the
  repository that is not among the sources under \<^verbatim>\<open>src/\<close>, which hold the web
  client only.  The two operations of this section, the fallback chain of the OCR
  phase and the merge of the fields at aggregation, are written from sections 3,
  4.3, 4.5, 5 and 6 of the specification, following its words.  The stages whose
  algorithm the specification leaves open (preprocessing, region detection, rule
  matching, the status rule) are not modelled.
\<close>

text \<open>
  Modelled from the spec: the bounding box of a token (section 3), whose
  declaration is missing from the sources.  An axis-aligned rectangle.
\<close>

record box =
  boxLeft :: int
  boxTop :: int
  boxWidth :: int
  boxHeight :: int

text \<open>
  Modelled from the spec: \<open>OcrToken\<close> (section 3), whose declaration is missing from
  the sources: \<^verbatim>\<open>{text, confidence in [0,1], boundingBox, regionId}\<close>.  The confidence
  is a rational.
\<close>

record ocr_token =
  tokenText :: string
  confidence :: rat
  boundingBox :: box
  regionId :: nat

text \<open>
  Modelled from the spec: the \<open>typedValue\<close> of a field (section 3), whose
  declaration is missing from the sources: one of string, date, number,
  measurement \<^verbatim>\<open>{value, unit}\<close> and tableRow (cell values keyed by column).
\<close>

datatype typed_value =
    StringValue string
  | DateValue string
  | NumberValue rat
  | Measurement (mvalue: rat) (munit: string)
  | TableRow "(string \<times> string) list"

text \<open>
  Modelled from the spec: \<open>ExtractedField\<close> (section 3), whose declaration is
  missing from the sources:
  \<^verbatim>\<open>{name, rawText, typedValue, confidence, sourceRegionId}\<close>.
\<close>

record extracted_field =
  fieldName :: string
  rawText :: string
  typedValue :: typed_value
  fieldConfidence :: rat
  sourceRegionId :: nat

text \<open>
  Modelled from the spec: the configuration of \<^verbatim>\<open>process\<close> (section 6), whose
  declaration is missing from the sources: \<^verbatim>\<open>{enginePreferenceOrder,
  minFieldConfidence, minEngineConfidence, maxRegionParallelism,
  documentTimeoutMs}\<close>.
\<close>

record config =
  enginePreferenceOrder :: "string list"
  minFieldConfidence :: rat
  minEngineConfidence :: rat
  maxRegionParallelism :: nat
  documentTimeoutMs :: nat

text \<open>
  Modelled from the spec: the failure of the \<open>OCREngine\<close> capability (section 4.3),
  whose declaration is missing from the sources: \<^verbatim>\<open>recognize\<close> ``fails with
  \<open>EngineUnavailable\<close> when a backend cannot be invoked''.
\<close>

datatype engine_error = EngineUnavailable

text \<open>
  Modelled from the spec: the \<open>OCREngine\<close> capability itself (section 4.3), whose
  implementations are missing from the sources:
  \<^verbatim>\<open>recognize(regionImage) -> sequence of OcrToken\<close>.  An engine is any function of
  that type; the region image is a type parameter.
\<close>

type_synonym 'img ocr_engine = "'img \<Rightarrow> engine_error + ocr_token list"

text \<open>
  Modelled from the spec: the ``average confidence'' of an engine's result
  (section 4.3), whose code is missing from the sources: the mean of the tokens'
  confidences.  It is only asked of a result that has tokens.
\<close>

definition averageConfidence :: "ocr_token list \<Rightarrow> rat" where
  "averageConfidence ts = sum_list (map confidence ts) / of_nat (length ts)"

text \<open>
  Modelled from the spec: the retry test of the fallback chain (section 4.3),
  whose code is missing from the sources: the engine ``returns zero tokens or
  average confidence below a threshold''; the threshold is the configuration's
  \<open>minEngineConfidence\<close>.
\<close>

definition poorResult :: "config \<Rightarrow> ocr_token list \<Rightarrow> bool" where
  "poorResult cfg ts = (ts = [] \<or> averageConfidence ts < minEngineConfidence cfg)"

text \<open>
  Modelled from the spec: the fallback chain of the OCR phase (section 4.3, and
  the design note ``attempt engine i, evaluate confidence, advance''), whose code
  is missing from the sources.  The engines of the chain are tried in order on
  one region.  An engine that is unavailable is skipped (``recoverable by
  skipping to the next engine''); a poor result is retried with the next engine
  (``retry that region with the next engine in the chain before accepting the
  result''); any other result is accepted and ends the chain.  The value is the
  list of the outcomes of the attempts made, in order; the region's OCR result is
  the last of them.
\<close>

fun fallbackAttempts ::
  "config \<Rightarrow> 'img ocr_engine list \<Rightarrow> 'img \<Rightarrow> (engine_error + ocr_token list) list" where
  "fallbackAttempts cfg [] img = []"
| "fallbackAttempts cfg (engine # rest) img =
     (case engine img of
        Inl err \<Rightarrow> Inl err # fallbackAttempts cfg rest img
      | Inr ts \<Rightarrow>
          if poorResult cfg ts then Inr ts # fallbackAttempts cfg rest img
          else [Inr ts])"

text \<open>
  Two readings of ``the chain moves on after this attempt'': the engine returned
  a poor result (\<open>returnedPoor\<close>), or it did that or was unavailable (\<open>movesOn\<close>).
\<close>

fun returnedPoor :: "config \<Rightarrow> engine_error + ocr_token list \<Rightarrow> bool" where
  "returnedPoor cfg (Inl err) = False"
| "returnedPoor cfg (Inr ts) = poorResult cfg ts"

fun movesOn :: "config \<Rightarrow> engine_error + ocr_token list \<Rightarrow> bool" where
  "movesOn cfg (Inl err) = True"
| "movesOn cfg (Inr ts) = poorResult cfg ts"

text \<open>
  Engine stubs, a token and a configuration for concrete runs of the chain; the
  token is the one of the specification's scenario (section 8).
\<close>

definition serialToken :: ocr_token where
  "serialToken =
     \<lparr>tokenText = ''Serial: AB-1029'', confidence = 95 / 100,
      boundingBox = \<lparr>boxLeft = 0, boxTop = 0, boxWidth = 120, boxHeight = 16\<rparr>,
      regionId = 0\<rparr>"

definition downEngine :: "unit ocr_engine" where
  "downEngine img = Inl EngineUnavailable"

definition stubEngine :: "unit ocr_engine" where
  "stubEngine img = Inr [serialToken]"

definition blankEngine :: "unit ocr_engine" where
  "blankEngine img = Inr []"

definition stubConfig :: config where
  "stubConfig =
     \<lparr>enginePreferenceOrder = [''fast'', ''accurate''], minFieldConfidence = 1 / 2,
      minEngineConfidence = 1 / 2, maxRegionParallelism = 4, documentTimeoutMs = 30000\<rparr>"

text \<open>
  Modelled from the spec: what one region task hands to the aggregation barrier
  (sections 4.5 and 5), whose declaration is missing from the sources: the
  position of its region in the detector's reading order, and the fields
  extracted from that region, in extraction order.
\<close>

record region_output =
  regionPosition :: nat
  regionFields :: "extracted_field list"

text \<open>
  Modelled from the spec: the merge of the fields at aggregation (sections 5 and
  6), whose code is missing from the sources.  The outputs arrive in the order
  the tasks complete; the final \<open>fields\<close> sequence is ``sorted by region reading
  order (not completion order)'', with ``stable field ordering (region order, then
  extraction order within a region)''.
\<close>

definition mergeFields :: "region_output list \<Rightarrow> extracted_field list" where
  "mergeFields completed = concat (map regionFields (sort_key regionPosition completed))"

text \<open>Fields for concrete runs of the merge.\<close>

definition serialField :: extracted_field where
  "serialField =
     \<lparr>fieldName = ''serial_id'', rawText = ''Serial: AB-1029'',
      typedValue = StringValue ''AB-1029'', fieldConfidence = 95 / 100, sourceRegionId = 0\<rparr>"

definition lengthField :: extracted_field where
  "lengthField =
     \<lparr>fieldName = ''measurement'', rawText = ''12.5 mm'',
      typedValue = Measurement (25 / 2) ''mm'', fieldConfidence = 9 / 10, sourceRegionId = 1\<rparr>"

definition dateField :: extracted_field where
  "dateField =
     \<lparr>fieldName = ''document_date'', rawText = ''2024-03-01'',
      typedValue = DateValue ''2024-03-01'', fieldConfidence = 8 / 10, sourceRegionId = 1\<rparr>"


section \<open>Properties of the components\<close>

subsection \<open>DocumentUpload: no request without a file\<close>

lemma handleUpload_falsy:
  "\<not> truthyRef (selectedFile s) \<Longrightarrow> handleUpload s out = []"
  by (simp add: handleUpload_def)

lemma handleUpload_fetch_file:
  "FetchCall u m b \<in> set (handleUpload s out) \<Longrightarrow>
     \<exists>f. selectedFile s = Obj f \<and> u = ''http://localhost:8000/api/upload'' \<and> m = ''POST'' \<and>
         b = [(''file'', Obj f)]"
  by (cases "selectedFile s"; cases out) (auto simp: handleUpload_def)

lemma DocumentUpload_disabled_iff:
  "uploadDisabled (DocumentUpload s) = (\<not> truthyRef (selectedFile s))"
  by (simp add: DocumentUpload_def)

text \<open>
  C8.  With \<open>selectedFile\<close> \<^verbatim>\<open>null\<close>, \<open>handleUpload\<close> returns at once: it performs no
  effect at all, so no \<^verbatim>\<open>fetch\<close>; the same holds for the \<^verbatim>\<open>undefined\<close> that an empty
  file list leaves in the cell.  In both states the upload button is rendered
  disabled, so a click runs nothing.  Whenever \<open>handleUpload\<close> does call \<^verbatim>\<open>fetch\<close>,
  the state holds a file, and the call is the POST to \<^verbatim>\<open>/api/upload\<close> with that
  file as the form's \<^verbatim>\<open>file\<close> entry.
\<close>

theorem handleUpload_posts_only_selected_file:
  "(selectedFile s = Null \<or> selectedFile s = Undefined \<longrightarrow>
      handleUpload s out = [] \<and> uploadDisabled (DocumentUpload s) \<and> clickUpload s out = [])
   \<and> (FetchCall u m b \<in> set (handleUpload s out) \<longrightarrow>
      (\<exists>f. selectedFile s = Obj f \<and> u = ''http://localhost:8000/api/upload'' \<and> m = ''POST'' \<and>
           b = [(''file'', Obj f)]))"
proof (intro conjI impI)
  assume falsy: "selectedFile s = Null \<or> selectedFile s = Undefined"
  then have nt: "\<not> truthyRef (selectedFile s)" by auto
  show "handleUpload s out = []" using nt by (rule handleUpload_falsy)
  show "uploadDisabled (DocumentUpload s)" using nt by (simp add: DocumentUpload_disabled_iff)
  then show "clickUpload s out = []" by (simp add: clickUpload_def)
next
  assume "FetchCall u m b \<in> set (handleUpload s out)"
  then show "\<exists>f. selectedFile s = Obj f \<and> u = ''http://localhost:8000/api/upload'' \<and> m = ''POST'' \<and>
      b = [(''file'', Obj f)]"
    by (rule handleUpload_fetch_file)
qed

theorem handleUpload_posts_only_selected_file_witness:
  "selectedFile initialUpload = Null
   \<and> handleUpload initialUpload (Resolved JNull) = []
   \<and> uploadDisabled (DocumentUpload initialUpload)
   \<and> clickUpload initialUpload (Resolved JNull) = []
   \<and> FetchCall ''http://localhost:8000/api/upload'' ''POST''
         [(''file'', Obj (JsFile ''scan.png'' [137, 80]))]
       \<in> set (handleUpload (handleFileSelect [JsFile ''scan.png'' [137, 80]] initialUpload) (Resolved JNull))
   \<and> selectedFile (handleFileSelect [JsFile ''scan.png'' [137, 80]] initialUpload)
       = Obj (JsFile ''scan.png'' [137, 80])"
  using handleUpload_posts_only_selected_file [of initialUpload "Resolved JNull"]
    handleUpload_posts_only_selected_file
      [of "handleFileSelect [JsFile ''scan.png'' [137, 80]] initialUpload" "Resolved JNull"
          "''http://localhost:8000/api/upload''" "''POST''"
          "[(''file'', Obj (JsFile ''scan.png'' [137, 80]))]"]
  by (simp add: initialUpload_def handleFileSelect_def handleUpload_def)


subsection \<open>DocumentViewer: loading ends, and a null document is not dereferenced\<close>

lemma fetchDocument_loading:
  "loading (fst (fetchDocument ident out s)) = False"
  by (cases out) simp_all

lemma DocumentViewer_null:
  "\<not> loading s \<Longrightarrow> document s = JNull \<Longrightarrow> DocumentViewer s = Inr NotFound"
  by (simp add: DocumentViewer_def)

lemma renderDetails_null:
  "renderDetails JNull = Inl TypeError"
  by (simp add: renderDetails_def)

lemma fetchDocument_stores:
  "document (fst (fetchDocument ident (Resolved data) s)) = data"
  by simp

text \<open>
  C9.  Whatever the network answered, the state after \<open>fetchDocument\<close> has
  \<open>loading\<close> false: the \<^verbatim>\<open>try\<close> path and the \<^verbatim>\<open>catch\<close> path both set it.  On the
  \<^verbatim>\<open>try\<close> path the fetched value is what the \<open>document\<close> cell holds afterwards,
  whatever it held before; on the \<^verbatim>\<open>catch\<close> path the cell is left as it was.  So
  when the fetched document is \<^verbatim>\<open>null\<close>, from every state, also one that shows a
  document loaded earlier, the component returns the \<^verbatim>\<open>Document not found\<close>
  message.  In general, if the document in the state after the fetch is \<^verbatim>\<open>null\<close>,
  that message is returned; the details JSX, which on \<^verbatim>\<open>null\<close> would throw a
  TypeError at \<^verbatim>\<open>document.filename\<close>, is not evaluated.
\<close>

theorem fetchDocument_then_not_found:
  "loading (fst (fetchDocument ident out s)) = False
   \<and> (document (fst (fetchDocument ident out s)) = JNull \<longrightarrow>
        DocumentViewer (fst (fetchDocument ident out s)) = Inr NotFound)
   \<and> renderDetails JNull = Inl TypeError
   \<and> document (fst (fetchDocument ident (Resolved data) s)) = data
   \<and> document (fst (fetchDocument ident (FetchRejected err) s)) = document s
   \<and> document (fst (fetchDocument ident (JsonRejected err) s)) = document s
   \<and> DocumentViewer (fst (fetchDocument ident (Resolved JNull) s)) = Inr NotFound"
proof -
  have after: "loading (fst (fetchDocument ident out s)) = False"
    by (rule fetchDocument_loading)
  have guarded: "document (fst (fetchDocument ident out s)) = JNull \<longrightarrow>
      DocumentViewer (fst (fetchDocument ident out s)) = Inr NotFound"
    using after by (simp add: DocumentViewer_null)
  have fetched_null: "DocumentViewer (fst (fetchDocument ident (Resolved JNull) s)) = Inr NotFound"
    by (rule DocumentViewer_null) (simp_all add: fetchDocument_stores)
  show ?thesis
    using after guarded fetched_null renderDetails_null by simp
qed

text \<open>
  The witness starts from a state that shows a loaded document (the viewer at
  \<^verbatim>\<open>/view/7\<close>) and fetches \<^verbatim>\<open>null\<close> for the next id.
\<close>

theorem fetchDocument_then_not_found_witness:
  "DocumentViewer \<lparr>document = JObj [(''filename'', JStr ''T1.jpeg''), (''status'', JStr ''done'')],
                   loading = False\<rparr>
     = Inr (Details \<lparr>fileNameCell = JStr ''T1.jpeg'', uploadDateCell = JUndefined,
                      statusCell = JStr ''done'', extractedRows = None, previewSrc = None\<rparr>)
   \<and> loading (fst (fetchDocument ''8'' (Resolved JNull)
        \<lparr>document = JObj [(''filename'', JStr ''T1.jpeg''), (''status'', JStr ''done'')],
         loading = False\<rparr>)) = False
   \<and> document (fst (fetchDocument ''8'' (Resolved JNull)
        \<lparr>document = JObj [(''filename'', JStr ''T1.jpeg''), (''status'', JStr ''done'')],
         loading = False\<rparr>)) = JNull
   \<and> DocumentViewer (fst (fetchDocument ''8'' (Resolved JNull)
        \<lparr>document = JObj [(''filename'', JStr ''T1.jpeg''), (''status'', JStr ''done'')],
         loading = False\<rparr>)) = Inr NotFound
   \<and> document (fst (fetchDocument ''7'' (FetchRejected ''Failed to fetch'') initialViewer)) = JNull
   \<and> DocumentViewer (fst (fetchDocument ''7'' (FetchRejected ''Failed to fetch'') initialViewer))
       = Inr NotFound"
  using fetchDocument_then_not_found
      [of "''8''" "Resolved JNull"
          "\<lparr>document = JObj [(''filename'', JStr ''T1.jpeg''), (''status'', JStr ''done'')],
            loading = False\<rparr>"]
    fetchDocument_then_not_found [of "''7''" "FetchRejected ''Failed to fetch''" initialViewer]
  by (simp add: initialViewer_def DocumentViewer_def renderDetails_def)


subsection \<open>ProcessingDashboard: what the documents cell holds\<close>

text \<open>
  The parts of the dashboard's load that hold on the code.  \<open>documents\<close> starts as
  the empty array.  When the \<^verbatim>\<open>catch\<close> runs (the fetch rejected, or the body was not
  JSON), \<open>documents\<close> is left as it was, so still empty after the first load, and
  the dashboard renders an empty grid.  Every outcome sets \<open>loadingDocs\<close> to
  false.  On the \<^verbatim>\<open>try\<close> path the parsed body is stored without a check.
\<close>

lemma fetchDocuments_documents_cell:
  "documents initialDashboard = JArr []
   \<and> documents (fst (fetchDocuments (FetchRejected err) s)) = documents s
   \<and> documents (fst (fetchDocuments (JsonRejected err) s)) = documents s
   \<and> loadingDocs (fst (fetchDocuments out s)) = False
   \<and> ProcessingDashboard (fst (fetchDocuments (FetchRejected err) initialDashboard)) = Inr (Grid [])
   \<and> ProcessingDashboard (fst (fetchDocuments (JsonRejected err) initialDashboard)) = Inr (Grid [])
   \<and> documents (fst (fetchDocuments (Resolved data) s)) = data
   \<and> isArray (documents (fst (fetchDocuments (Resolved data) s))) = isArray data"
proof -
  have "loadingDocs (fst (fetchDocuments out s)) = False"
    by (cases out) simp_all
  then show ?thesis
    by (simp add: initialDashboard_def ProcessingDashboard_def)
qed

text \<open>
  C10 does not hold on the code: \<open>documents\<close> is not always an array, and a failed
  fetch of \<^verbatim>\<open>/api/documents\<close> can make the dashboard fail.  When the server answers
  with an error status and a JSON error body, \<^verbatim>\<open>fetch\<close> resolves; the component
  never looks at \<^verbatim>\<open>response.ok\<close>, so its \<^verbatim>\<open>catch\<close>, written for a failed load, does not
  run.  The error object is stored in \<open>documents\<close>, and the next render throws a
  TypeError at \<^verbatim>\<open>documents.map\<close> instead of showing an empty grid.  The theorem
  evaluates the component on the first load with that answer.
\<close>

theorem fetchDocuments_error_body_not_array:
  "\<not> isArray (documents (fst (fetchDocuments
        (Resolved (JObj [(''detail'', JStr ''Internal Server Error'')])) initialDashboard)))
   \<and> loadingDocs (fst (fetchDocuments
        (Resolved (JObj [(''detail'', JStr ''Internal Server Error'')])) initialDashboard)) = False
   \<and> ProcessingDashboard (fst (fetchDocuments
        (Resolved (JObj [(''detail'', JStr ''Internal Server Error'')])) initialDashboard))
       = Inl TypeError"
  by (simp add: initialDashboard_def ProcessingDashboard_def)


section \<open>Properties of the pipeline operations\<close>

subsection \<open>The fallback chain\<close>

lemma fallbackAttempts_length:
  "length (fallbackAttempts cfg chain img) \<le> length chain"
  by (induction chain) (auto split: sum.splits)

lemma fallbackAttempts_prefix:
  "fallbackAttempts cfg chain img =
     map (\<lambda>engine. engine img) (take (length (fallbackAttempts cfg chain img)) chain)"
  by (induction chain) (auto split: sum.splits)

lemma fallbackAttempts_movesOn:
  "Suc i < length (fallbackAttempts cfg chain img) \<Longrightarrow>
     movesOn cfg (fallbackAttempts cfg chain img ! i)"
proof (induction chain arbitrary: i)
  case Nil
  then show ?case by simp
next
  case (Cons engine rest)
  then show ?case
    by (cases i) (auto split: sum.splits if_splits)
qed

text \<open>
  C7, as stated, fails in one respect: the next engine is tried not only when
  the current one returns zero tokens or a low average.  Here the first engine of
  the chain is unavailable, it returns no token list at all, and the second
  engine is tried, as section 4.3 prescribes.
\<close>

theorem fallbackAttempts_unavailable_counterexample:
  "fallbackAttempts stubConfig [downEngine, stubEngine] () =
     [Inl EngineUnavailable, Inr [serialToken]]
   \<and> \<not> returnedPoor stubConfig (fallbackAttempts stubConfig [downEngine, stubEngine] () ! 0)"
  by (simp add: downEngine_def stubEngine_def poorResult_def averageConfidence_def
      serialToken_def stubConfig_def)

text \<open>
  C7, amended.  For every region image and every chain of length N the OCR phase
  makes at most N attempts: the attempts are the calls of the first engines of
  the chain, one call each, in chain order.  Whenever a further engine is tried,
  the engine before it was unavailable or returned zero tokens or an average
  confidence below \<open>minEngineConfidence\<close>.  So the work on a region ends after at
  most N attempts.
\<close>

theorem fallbackAttempts_at_most_chain_length:
  "length (fallbackAttempts cfg chain img) \<le> length chain
   \<and> fallbackAttempts cfg chain img =
       map (\<lambda>engine. engine img) (take (length (fallbackAttempts cfg chain img)) chain)
   \<and> (\<forall>i. Suc i < length (fallbackAttempts cfg chain img) \<longrightarrow>
          movesOn cfg (fallbackAttempts cfg chain img ! i))"
  using fallbackAttempts_length [of cfg chain img] fallbackAttempts_prefix [of cfg chain img]
    fallbackAttempts_movesOn [of _ cfg chain img]
  by blast

theorem fallbackAttempts_at_most_chain_length_witness:
  "length (fallbackAttempts stubConfig [blankEngine, downEngine, stubEngine, stubEngine] ()) = 3
   \<and> Suc 1 < length (fallbackAttempts stubConfig [blankEngine, downEngine, stubEngine, stubEngine] ())
   \<and> movesOn stubConfig (fallbackAttempts stubConfig [blankEngine, downEngine, stubEngine, stubEngine] () ! 0)
   \<and> movesOn stubConfig (fallbackAttempts stubConfig [blankEngine, downEngine, stubEngine, stubEngine] () ! 1)
   \<and> \<not> movesOn stubConfig (fallbackAttempts stubConfig [blankEngine, downEngine, stubEngine, stubEngine] () ! 2)"
  using fallbackAttempts_at_most_chain_length
      [of stubConfig "[blankEngine, downEngine, stubEngine, stubEngine]" "()"]
  by (simp add: blankEngine_def downEngine_def stubEngine_def poorResult_def
      averageConfidence_def serialToken_def stubConfig_def)


subsection \<open>Field order after aggregation\<close>

lemma filter_key_distinct:
  "distinct (map f xs) \<Longrightarrow> k \<in> set xs \<Longrightarrow> filter (\<lambda>x. f k = f x) xs = [k]"
  by (induction xs) (auto simp: filter_empty_conv image_iff)

lemma sort_key_permutation:
  assumes perm: "mset completed = mset inOrder"
    and ordered: "sorted (map f inOrder)"
    and uniq: "distinct (map f inOrder)"
  shows "sort_key f completed = inOrder"
proof (rule properties_for_sort_key)
  show "mset inOrder = mset completed" using perm by simp
  show "sorted (map f inOrder)" by (rule ordered)
  fix k
  assume k: "k \<in> set inOrder"
  have "mset (map f completed) = mset (map f inOrder)"
    using perm by (metis mset_map)
  then have uniq': "distinct (map f completed)"
    using uniq by (metis mset_eq_imp_distinct_iff)
  have k': "k \<in> set completed"
    using k perm by (metis mset_eq_setD)
  show "filter (\<lambda>x. f k = f x) inOrder = filter (\<lambda>x. f k = f x) completed"
    using filter_key_distinct [OF uniq k] filter_key_distinct [OF uniq' k'] by simp
qed

text \<open>
  C6.  Let \<open>inOrder\<close> be the outputs of the region tasks that reached the
  aggregation barrier, one per region, listed in reading order, and let
  \<open>completed\<close> be the same outputs in the order the tasks completed, any
  permutation of them.  The final \<open>fields\<close> sequence is the concatenation of the
  regions' fields in reading order, each region's fields in extraction order: it
  does not depend on the completion order.
\<close>

theorem mergeFields_reading_order:
  assumes "mset completed = mset inOrder"
    and "sorted (map regionPosition inOrder)"
    and "distinct (map regionPosition inOrder)"
  shows "mergeFields completed = concat (map regionFields inOrder)"
  using assms by (simp add: mergeFields_def sort_key_permutation)

theorem mergeFields_reading_order_witness:
  "mset [\<lparr>regionPosition = 1, regionFields = [lengthField, dateField]\<rparr>,
         \<lparr>regionPosition = 0, regionFields = [serialField]\<rparr>]
     = mset [\<lparr>regionPosition = 0, regionFields = [serialField]\<rparr>,
             \<lparr>regionPosition = 1, regionFields = [lengthField, dateField]\<rparr>]
   \<and> sorted (map regionPosition [\<lparr>regionPosition = 0, regionFields = [serialField]\<rparr>,
             \<lparr>regionPosition = 1, regionFields = [lengthField, dateField]\<rparr>])
   \<and> distinct (map regionPosition [\<lparr>regionPosition = 0, regionFields = [serialField]\<rparr>,
             \<lparr>regionPosition = 1, regionFields = [lengthField, dateField]\<rparr>])
   \<and> mergeFields [\<lparr>regionPosition = 1, regionFields = [lengthField, dateField]\<rparr>,
                  \<lparr>regionPosition = 0, regionFields = [serialField]\<rparr>]
       = [serialField, lengthField, dateField]"
  using mergeFields_reading_order
      [of "[\<lparr>regionPosition = 1, regionFields = [lengthField, dateField]\<rparr>,
            \<lparr>regionPosition = 0, regionFields = [serialField]\<rparr>]"
          "[\<lparr>regionPosition = 0, regionFields = [serialField]\<rparr>,
            \<lparr>regionPosition = 1, regionFields = [lengthField, dateField]\<rparr>]"]
  by simp

end
